theory Spec2Isabelle
  imports Main
begin

section \<open>JSON values and the JavaScript operations the handlers apply to them\<close>

text \<open>
  Both server files work on untyped JSON data: the request body produced by
  \<^verbatim>\<open>express.json()\<close>, the payload handed to \<^verbatim>\<open>axios.post\<close>, the reply body of the
  upstream and the value returned by \<^verbatim>\<open>JSON.parse\<close>. A JSON object is an association
  list whose first binding of a key counts, in the order of the JSON text; a number keeps
  its decimal literal (no floating point arithmetic is done by the handlers). JavaScript's \<^verbatim>\<open>undefined\<close> is
  not a JSON value: a JavaScript value that may be undefined is a \<open>json option\<close>,
  \<open>None\<close> being \<^verbatim>\<open>undefined\<close>. Strings are lists of 8-bit characters.
\<close>

datatype json =
    JNull
  | JBool bool
  | JNum string
  | JStr string
  | JArr "json list"
  | JObj "(string \<times> json) list"

type_synonym jsval = "json option"

text \<open>
  What a \<^verbatim>\<open>try\<close> block of the handlers can catch: the exceptions of the language, an
  \<^verbatim>\<open>Error\<close> thrown by the handler itself, and the rejection of \<^verbatim>\<open>axios.post\<close>.
\<close>

datatype axios_failure = HttpStatus nat json | NoResponse | SetupFailure string

datatype exn = TypeError | SyntaxError | Error string | AxiosError axios_failure

subsection \<open>JSON.parse\<close>

text \<open>
  \<^verbatim>\<open>JSON.parse\<close> is a built-in of the language. It is modelled by a lexer that reads the
  text one character at a time and a parser that reads the tokens one at a time with an
  explicit stack of the arrays and objects under construction, so that both are
  structurally recursive. The grammar is the JSON grammar (ECMA-404); a \<^verbatim>\<open>\uXXXX\<close>
  escape above \<^verbatim>\<open>00FF\<close> has no 8-bit character and is outside the model
  (the lexer gives up on it).
\<close>

datatype token =
    TLBrace | TRBrace | TLBrack | TRBrack | TColon | TComma
  | TString string | TNumber string | TWord string

datatype lexmode =
    Idle
  | InString string
  | InEscape string
  | InUnicode string string
  | InNumber string
  | InWord string

definition json_ws :: "char \<Rightarrow> bool" where
  "json_ws c = (c = CHR '' '' \<or> c = CHR 0x09 \<or> c = CHR 0x0A \<or> c = CHR 0x0D)"

definition is_digit :: "char \<Rightarrow> bool" where
  "is_digit c = List.member ''0123456789'' c"

definition is_letter :: "char \<Rightarrow> bool" where
  "is_letter c = List.member ''abcdefghijklmnopqrstuvwxyz'' c"

definition is_number_char :: "char \<Rightarrow> bool" where
  "is_number_char c = (is_digit c \<or> List.member ''+-.eE'' c)"

definition hex_value :: "char \<Rightarrow> nat option" where
  "hex_value c =
     (if is_digit c then Some (of_char c - 48)
      else if List.member ''abcdef'' c then Some (of_char c - 87)
      else if List.member ''ABCDEF'' c then Some (of_char c - 55)
      else None)"

definition unescape :: "char \<Rightarrow> char option" where
  \<open>unescape c =
     (if c = CHR ''"'' \<or> c = CHR 0x5C \<or> c = CHR ''/'' then Some c
      else if c = CHR ''b'' then Some (CHR 0x08)
      else if c = CHR ''f'' then Some (CHR 0x0C)
      else if c = CHR ''n'' then Some (CHR 0x0A)
      else if c = CHR ''r'' then Some (CHR 0x0D)
      else if c = CHR ''t'' then Some (CHR 0x09)
      else None)\<close>

text \<open>The number grammar: \<^verbatim>\<open>-?(0|[1-9][0-9]*)(\.[0-9]+)?([eE][+-]?[0-9]+)?\<close>.\<close>

definition valid_exponent :: "string \<Rightarrow> bool" where
  "valid_exponent r =
     (case r of
        [] \<Rightarrow> True
      | c # cs \<Rightarrow>
          (c = CHR ''e'' \<or> c = CHR ''E'') \<and>
          (case cs of
             [] \<Rightarrow> False
           | d # ds \<Rightarrow>
               if d = CHR ''+'' \<or> d = CHR ''-'' then ds \<noteq> [] \<and> list_all is_digit ds
               else list_all is_digit cs))"

definition valid_fraction :: "string \<Rightarrow> bool" where
  "valid_fraction r =
     (case r of
        [] \<Rightarrow> True
      | c # cs \<Rightarrow>
          if c = CHR ''.''
          then takeWhile is_digit cs \<noteq> [] \<and> valid_exponent (dropWhile is_digit cs)
          else valid_exponent r)"

definition valid_number :: "string \<Rightarrow> bool" where
  "valid_number l =
     (let u = (case l of [] \<Rightarrow> [] | c # cs \<Rightarrow> if c = CHR ''-'' then cs else l)
      in (case takeWhile is_digit u of
            [] \<Rightarrow> False
          | d # ds \<Rightarrow> (if d = CHR ''0'' then ds = [] else True) \<and>
                     valid_fraction (dropWhile is_digit u)))"

definition start_token :: "token list \<Rightarrow> char \<Rightarrow> (lexmode \<times> token list) option" where
  \<open>start_token ts c =
     (if json_ws c then Some (Idle, ts)
      else if c = CHR ''{'' then Some (Idle, TLBrace # ts)
      else if c = CHR ''}'' then Some (Idle, TRBrace # ts)
      else if c = CHR ''['' then Some (Idle, TLBrack # ts)
      else if c = CHR '']'' then Some (Idle, TRBrack # ts)
      else if c = CHR '':'' then Some (Idle, TColon # ts)
      else if c = CHR '','' then Some (Idle, TComma # ts)
      else if c = CHR ''"'' then Some (InString [], ts)
      else if c = CHR ''-'' \<or> is_digit c then Some (InNumber [c], ts)
      else if is_letter c then Some (InWord [c], ts)
      else None)\<close>

text \<open>
  One character of input. The characters of the token being read and the tokens read so
  far are kept in reverse.
\<close>

fun lex_step :: "lexmode \<times> token list \<Rightarrow> char \<Rightarrow> (lexmode \<times> token list) option" where
  \<open>lex_step (Idle, ts) c = start_token ts c\<close>
| \<open>lex_step (InString acc, ts) c =
     (if c = CHR ''"'' then Some (Idle, TString (rev acc) # ts)
      else if c = CHR 0x5C then Some (InEscape acc, ts)
      else if (of_char c :: nat) < 32 then None
      else Some (InString (c # acc), ts))\<close>
| \<open>lex_step (InEscape acc, ts) c =
     (case unescape c of
        Some d \<Rightarrow> Some (InString (d # acc), ts)
      | None \<Rightarrow> if c = CHR ''u'' then Some (InUnicode acc [], ts) else None)\<close>
| \<open>lex_step (InUnicode acc hs, ts) c =
     (case hex_value c of
        None \<Rightarrow> None
      | Some h \<Rightarrow>
          if length hs < 3 then Some (InUnicode acc (c # hs), ts)
          else (case map hex_value (rev hs) of
                  [Some h1, Some h2, Some h3] \<Rightarrow>
                    if h1 = 0 \<and> h2 = 0 then Some (InString (char_of (16 * h3 + h) # acc), ts)
                    else None
                | _ \<Rightarrow> None))\<close>
| \<open>lex_step (InNumber acc, ts) c =
     (if is_number_char c then Some (InNumber (c # acc), ts)
      else if valid_number (rev acc) then start_token (TNumber (rev acc) # ts) c
      else None)\<close>
| \<open>lex_step (InWord acc, ts) c =
     (if is_letter c then Some (InWord (c # acc), ts)
      else if List.member [''true'', ''false'', ''null''] (rev acc)
      then start_token (TWord (rev acc) # ts) c
      else None)\<close>

fun lex_finish :: "lexmode \<times> token list \<Rightarrow> token list option" where
  "lex_finish (Idle, ts) = Some (rev ts)"
| "lex_finish (InNumber acc, ts) =
     (if valid_number (rev acc) then Some (rev (TNumber (rev acc) # ts)) else None)"
| "lex_finish (InWord acc, ts) =
     (if List.member [''true'', ''false'', ''null''] (rev acc)
      then Some (rev (TWord (rev acc) # ts)) else None)"
| "lex_finish (InString acc, ts) = None"
| "lex_finish (InEscape acc, ts) = None"
| "lex_finish (InUnicode acc hs, ts) = None"

fun lex_from :: "lexmode \<times> token list \<Rightarrow> string \<Rightarrow> token list option" where
  "lex_from st [] = lex_finish st"
| "lex_from st (c # cs) =
     (case lex_step st c of None \<Rightarrow> None | Some st' \<Rightarrow> lex_from st' cs)"

definition lex :: "string \<Rightarrow> token list option" where
  "lex s = lex_from (Idle, []) s"

datatype frame =
    ArrFrame "json list"
  | ObjFrame "(string \<times> json) list" "string option"

datatype expect =
    ExpValue | ExpValueOrClose | ExpKeyOrClose | ExpKey | ExpColon | ExpCommaOrClose | ExpEnd

type_synonym pstate = "expect \<times> frame list \<times> json option"

text \<open>A repeated key keeps its place and takes the later value, as a property assignment does.\<close>

fun obj_put :: "(string \<times> json) list \<Rightarrow> string \<Rightarrow> json \<Rightarrow> (string \<times> json) list" where
  "obj_put [] k v = [(k, v)]"
| "obj_put ((k', v') # kvs) k v =
     (if k' = k then (k, v) # kvs else (k', v') # obj_put kvs k v)"

fun put_value :: "frame list \<Rightarrow> json \<Rightarrow> pstate option" where
  "put_value [] v = Some (ExpEnd, [], Some v)"
| "put_value (ArrFrame vs # st) v = Some (ExpCommaOrClose, ArrFrame (v # vs) # st, None)"
| "put_value (ObjFrame kvs (Some k) # st) v =
     Some (ExpCommaOrClose, ObjFrame (obj_put kvs k v) None # st, None)"
| "put_value (ObjFrame kvs None # st) v = None"

fun scalar_of :: "token \<Rightarrow> json option" where
  "scalar_of (TString s) = Some (JStr s)"
| "scalar_of (TNumber l) = Some (JNum l)"
| "scalar_of (TWord w) =
     (if w = ''true'' then Some (JBool True)
      else if w = ''false'' then Some (JBool False)
      else if w = ''null'' then Some JNull
      else None)"
| "scalar_of _ = None"

definition begin_value :: "frame list \<Rightarrow> token \<Rightarrow> pstate option" where
  "begin_value st t =
     (if t = TLBrack then Some (ExpValueOrClose, ArrFrame [] # st, None)
      else if t = TLBrace then Some (ExpKeyOrClose, ObjFrame [] None # st, None)
      else (case scalar_of t of None \<Rightarrow> None | Some v \<Rightarrow> put_value st v))"

fun close_array :: "frame list \<Rightarrow> pstate option" where
  "close_array (ArrFrame vs # st) = put_value st (JArr (rev vs))"
| "close_array _ = None"

fun close_object :: "frame list \<Rightarrow> pstate option" where
  "close_object (ObjFrame kvs None # st) = put_value st (JObj kvs)"
| "close_object _ = None"

fun set_key :: "frame list \<Rightarrow> token \<Rightarrow> pstate option" where
  "set_key (ObjFrame kvs None # st) (TString k) = Some (ExpColon, ObjFrame kvs (Some k) # st, None)"
| "set_key _ _ = None"

fun after_value :: "frame list \<Rightarrow> token \<Rightarrow> pstate option" where
  "after_value (ArrFrame vs # st) t =
     (if t = TComma then Some (ExpValue, ArrFrame vs # st, None)
      else if t = TRBrack then close_array (ArrFrame vs # st)
      else None)"
| "after_value (ObjFrame kvs k # st) t =
     (if t = TComma then Some (ExpKey, ObjFrame kvs k # st, None)
      else if t = TRBrace then close_object (ObjFrame kvs k # st)
      else None)"
| "after_value [] t = None"

fun parse_step :: "pstate \<Rightarrow> token \<Rightarrow> pstate option" where
  "parse_step (ExpValue, st, r) t = begin_value st t"
| "parse_step (ExpValueOrClose, st, r) t =
     (if t = TRBrack then close_array st else begin_value st t)"
| "parse_step (ExpKeyOrClose, st, r) t =
     (if t = TRBrace then close_object st else set_key st t)"
| "parse_step (ExpKey, st, r) t = set_key st t"
| "parse_step (ExpColon, st, r) t = (if t = TColon then Some (ExpValue, st, None) else None)"
| "parse_step (ExpCommaOrClose, st, r) t = after_value st t"
| "parse_step (ExpEnd, st, r) t = None"

fun parse_from :: "pstate \<Rightarrow> token list \<Rightarrow> json option" where
  "parse_from (e, st, r) [] = (if e = ExpEnd then r else None)"
| "parse_from ps (t # ts) =
     (case parse_step ps t of None \<Rightarrow> None | Some ps' \<Rightarrow> parse_from ps' ts)"

definition json_parse_text :: "string \<Rightarrow> json option" where
  "json_parse_text s =
     (case lex s of None \<Rightarrow> None | Some ts \<Rightarrow> parse_from (ExpValue, [], None) ts)"


subsection \<open>Truthiness, property reads, trimming, replacing\<close>

text \<open>
  A number literal denotes zero when its mantissa has no digit other than \<open>0\<close>
  (rounding of literals outside the range of a double is not modelled).
\<close>

definition num_is_zero :: "string \<Rightarrow> bool" where
  "num_is_zero l =
     list_all (\<lambda>c. \<not> List.member ''123456789'' c)
       (takeWhile (\<lambda>c. \<not> List.member ''eE'' c) l)"

fun truthy :: "jsval \<Rightarrow> bool" where
  "truthy None = False"
| "truthy (Some JNull) = False"
| "truthy (Some (JBool b)) = b"
| "truthy (Some (JNum l)) = (\<not> num_is_zero l)"
| "truthy (Some (JStr s)) = (s \<noteq> [])"
| "truthy (Some (JArr xs)) = True"
| "truthy (Some (JObj kvs)) = True"

fun typeof :: "jsval \<Rightarrow> string" where
  "typeof None = ''undefined''"
| "typeof (Some JNull) = ''object''"
| "typeof (Some (JBool b)) = ''boolean''"
| "typeof (Some (JNum l)) = ''number''"
| "typeof (Some (JStr s)) = ''string''"
| "typeof (Some (JArr xs)) = ''object''"
| "typeof (Some (JObj kvs)) = ''object''"

fun isArray :: "jsval \<Rightarrow> bool" where
  "isArray (Some (JArr xs)) = True"
| "isArray _ = False"

text \<open>
  Reading a property by one of the names the handlers use (\<^verbatim>\<open>candidates\<close>,
  \<^verbatim>\<open>content\<close>, \<^verbatim>\<open>parts\<close>, \<^verbatim>\<open>text\<close>, \<^verbatim>\<open>careers\<close>, \<^verbatim>\<open>hobbies\<close>, \<^verbatim>\<open>role\<close>): only an
  object can have it; strings, numbers, booleans and arrays inherit no property of these
  names. Reading index \<^verbatim>\<open>0\<close> gives the first element of an array, the first character
  of a string and the property \<^verbatim>\<open>"0"\<close> of an object.
\<close>

fun get_prop :: "json \<Rightarrow> string \<Rightarrow> jsval" where
  "get_prop (JObj kvs) k = map_of kvs k"
| "get_prop _ k = None"

fun first_of :: "json \<Rightarrow> jsval" where
  "first_of (JArr xs) = (case xs of [] \<Rightarrow> None | x # _ \<Rightarrow> Some x)"
| "first_of (JStr s) = (case s of [] \<Rightarrow> None | c # _ \<Rightarrow> Some (JStr [c]))"
| "first_of (JObj kvs) = map_of kvs ''0''"
| "first_of _ = None"

text \<open>\<^verbatim>\<open>x.k\<close> and \<^verbatim>\<open>x[0]\<close> throw a TypeError on \<^verbatim>\<open>undefined\<close> and \<^verbatim>\<open>null\<close>.\<close>

fun member_of :: "jsval \<Rightarrow> string \<Rightarrow> exn + jsval" where
  "member_of None k = Inl TypeError"
| "member_of (Some JNull) k = Inl TypeError"
| "member_of (Some v) k = Inr (get_prop v k)"

fun index0 :: "jsval \<Rightarrow> exn + jsval" where
  "index0 None = Inl TypeError"
| "index0 (Some JNull) = Inl TypeError"
| "index0 (Some v) = Inr (first_of v)"

text \<open>\<^verbatim>\<open>x?.k\<close> and \<^verbatim>\<open>x?.[0]\<close> give \<^verbatim>\<open>undefined\<close> there.\<close>

fun opt_member :: "jsval \<Rightarrow> string \<Rightarrow> jsval" where
  "opt_member None k = None"
| "opt_member (Some JNull) k = None"
| "opt_member (Some v) k = get_prop v k"

fun opt_index0 :: "jsval \<Rightarrow> jsval" where
  "opt_index0 None = None"
| "opt_index0 (Some JNull) = None"
| "opt_index0 (Some v) = first_of v"

definition then_do :: "exn + 'a \<Rightarrow> ('a \<Rightarrow> exn + 'b) \<Rightarrow> exn + 'b" where
  "then_do r f = (case r of Inl e \<Rightarrow> Inl e | Inr v \<Rightarrow> f v)"

text \<open>
  An object literal: a property whose value is \<^verbatim>\<open>undefined\<close> does not appear in the
  JSON text that \<^verbatim>\<open>axios.post\<close> and \<^verbatim>\<open>res.json\<close> write, so it is left out.
\<close>

fun object_of :: "(string \<times> jsval) list \<Rightarrow> (string \<times> json) list" where
  "object_of [] = []"
| "object_of ((k, None) # kvs) = object_of kvs"
| "object_of ((k, Some v) # kvs) = (k, v) # object_of kvs"

text \<open>
  \<^verbatim>\<open>String.prototype.trim\<close> removes white space and line terminators at both ends;
  among 8-bit characters these are tab, line feed, vertical tab, form feed, carriage
  return, space and no-break space.
\<close>

definition js_space :: "char \<Rightarrow> bool" where
  "js_space c =
     List.member [CHR 0x09, CHR 0x0A, CHR 0x0B, CHR 0x0C, CHR 0x0D, CHR 0x20, CHR 0xA0] c"

definition trim :: "string \<Rightarrow> string" where
  "trim s = rev (dropWhile js_space (rev (dropWhile js_space s)))"

text \<open>
  \<^verbatim>\<open>s.replace(/pat/g, '')\<close> for a pattern of literal characters: every match, found
  from left to right without overlap, is removed.
\<close>

function remove_all :: "string \<Rightarrow> string \<Rightarrow> string" where
  "remove_all pat [] = []"
| "remove_all pat (c # cs) =
     (if pat \<noteq> [] \<and> take (length pat) (c # cs) = pat
      then remove_all pat (drop (length pat) (c # cs))
      else c # remove_all pat cs)"
  by pat_completeness auto
termination
  by (relation "measure (\<lambda>(pat, s). length s)") (auto simp: neq_Nil_conv)

text \<open>
  \<^verbatim>\<open>JSON.parse\<close> first converts its argument to a string. A number is written as its
  literal (JavaScript writes some other literal of the same number), an array as its
  elements separated by commas, \<^verbatim>\<open>null\<close> elements being empty.
\<close>

fun join_comma :: "string list \<Rightarrow> string" where
  "join_comma [] = []"
| "join_comma [s] = s"
| "join_comma (s # t # ss) = s @ '','' @ join_comma (t # ss)"

fun to_string :: "json \<Rightarrow> string" where
  "to_string JNull = ''null''"
| "to_string (JBool b) = (if b then ''true'' else ''false'')"
| "to_string (JNum l) = l"
| "to_string (JStr s) = s"
| "to_string (JArr xs) = join_comma (map (\<lambda>x. if x = JNull then [] else to_string x) xs)"
| "to_string (JObj kvs) = ''[object Object]''"

definition JSON_parse :: "jsval \<Rightarrow> exn + json" where
  "JSON_parse v =
     (case json_parse_text (case v of None \<Rightarrow> ''undefined'' | Some j \<Rightarrow> to_string j) of
        None \<Rightarrow> Inl SyntaxError
      | Some j \<Rightarrow> Inr j)"

section \<open>The upstream call and the response\<close>

text \<open>
  \<^verbatim>\<open>axios.post(url, payload, options)\<close> either resolves with the reply of a 2xx
  status, of which the handlers read the decoded body \<^verbatim>\<open>data\<close>, or rejects: with
  \<^verbatim>\<open>error.response\<close> for another status, with \<^verbatim>\<open>error.request\<close> when no reply
  came (a timeout, a reset connection), or with a message only. The upstream is a
  parameter of the handlers; they return what they sent with \<^verbatim>\<open>res\<close> and the list
  of the calls they made. An exception that leaves the handler is \<open>Escaped\<close>: no
  response has been sent then. Writes to the console are not modelled.

  A handler takes the upstream, the value of \<^verbatim>\<open>process.env.GEMINI_API_KEY\<close>
  (\<open>None\<close> when the variable is unset) and the request body, which is the object that
  \<^verbatim>\<open>express.json()\<close> parsed, as its list of properties (the empty list when the
  request had no JSON body).
\<close>

record request =
  post_url :: string
  post_payload :: json
  post_timeout :: "nat option"

datatype axios_result = Resolved json | Rejected axios_failure

type_synonym upstream = "request \<Rightarrow> axios_result"

datatype outcome = Responded nat json | Escaped exn

definition error_body :: "string \<Rightarrow> json" where
  "error_body msg = JObj [(''error'', JStr msg)]"

definition key_present :: "string option \<Rightarrow> bool" where
  "key_present apiKey = (case apiKey of None \<Rightarrow> False | Some k \<Rightarrow> k \<noteq> [])"

definition api_url :: "string option \<Rightarrow> string" where
  "api_url apiKey =
     ''https://generativelanguage.googleapis.com/v1beta/models/gemini-2.5-flash-preview-05-20:generateContent?key=''
       @ (case apiKey of None \<Rightarrow> ''undefined'' | Some k \<Rightarrow> k)"

definition system_instruction :: "string \<Rightarrow> json" where
  "system_instruction prompt = JObj [(''parts'', JArr [JObj [(''text'', JStr prompt)]])]"

section \<open>The prompts\<close>

text \<open>
  The four template literals of the two files, character by character. The names ending
  in \<open>_p0\<close> are those of \<^verbatim>\<open>src/unnamed/part_000\<close>, the others those of
  \<^verbatim>\<open>src/server.js\<close>.
\<close>

definition recommendations_prompt :: string where
  \<open>recommendations_prompt =
     ''\<newline>'' @
     ''    You are an expert career and education advisor. Your goal is to provide personalized recommendations based on a user\'s interests.\<newline>'' @
     ''    You MUST respond with a valid JSON object. Do not include any text, explanation, or markdown formatting before or after the JSON object.\<newline>'' @
     ''    The JSON object should have two keys: "careers" and "hobbies".\<newline>'' @
     ''    - "careers" should be an array of 2-4 career objects.\<newline>'' @
     ''    - "hobbies" should be an array of 2-3 hobby objects.\<newline>'' @
     ''\<newline>'' @
     ''    Each career object must have these keys:\<newline>'' @
     ''    - "career": The name of the career (string).\<newline>'' @
     ''    - "studies": An array of 3 specific subjects or fields to study for this career (array of strings).\<newline>'' @
     ''    - "icon": A string containing only the Font Awesome 6 FREE icon classes (e.g., "fas fa-code").\<newline>'' @
     ''\<newline>'' @
     ''    Each hobby object must have these keys:\<newline>'' @
     ''    - "hobby": The name of the hobby (string).\<newline>'' @
     ''    - "description": A short, encouraging description (string).\<newline>'' @
     ''    - "icon": A string containing only the Font Awesome 6 FREE icon classes (e.g., "fas fa-camera-retro").\<newline>'' @
     ''\<newline>'' @
     ''    Example of a valid JSON response:\<newline>'' @
     ''    {\<newline>'' @
     ''      "careers": [\<newline>'' @
     ''        {\<newline>'' @
     ''          "career": "Software Engineer",\<newline>'' @
     ''          "studies": ["Computer Science", "Data Structures and Algorithms", "Software Engineering"],\<newline>'' @
     ''          "icon": "fas fa-code"\<newline>'' @
     ''        },\<newline>'' @
     ''        {\<newline>'' @
     ''          "career": "Web Developer",\<newline>'' @
     ''          "studies": ["Web Development", "User Interface/Experience (UI/UX) Design", "Front-end and Back-end Technologies"],\<newline>'' @
     ''          "icon": "fas fa-laptop-code"\<newline>'' @
     ''        }\<newline>'' @
     ''      ],\<newline>'' @
     ''      "hobbies": [\<newline>'' @
     ''        {\<newline>'' @
     ''          "hobby": "Photography",\<newline>'' @
     ''          "description": "Capture and edit photos to enhance your creativity and attention to detail.",\<newline>'' @
     ''          "icon": "fas fa-camera-retro"\<newline>'' @
     ''        }\<newline>'' @
     ''      ]\<newline>'' @
     ''    }\<newline>'' @
     ''    ''\<close>

definition chat_prompt :: string where
  \<open>chat_prompt =
     ''You are Eva, a friendly and encouraging AI career counselor for the EduAdvisor.Ai website. Keep your responses concise, helpful, and supportive. Do not use markdown formatting.''\<close>

definition recommendations_prompt_p0 :: string where
  \<open>recommendations_prompt_p0 =
     ''\<newline>'' @
     ''        You are an expert career and education advisor. Your goal is to provide personalized recommendations based on a user\'s interests.\<newline>'' @
     ''        You MUST respond with a valid JSON object. Do not include any text, explanation, or markdown formatting before or after the JSON object.\<newline>'' @
     ''        The JSON object must have two properties: "careers" and "hobbies".\<newline>'' @
     ''\<newline>'' @
     ''        1. "careers": This must be an array of exactly 2 career objects.\<newline>'' @
     ''           Each career object must have the following properties:\<newline>'' @
     ''           - "career": (string) The name of the career.\<newline>'' @
     ''           - "icon": (string) The Font Awesome icon name for this career (e.g., "fas fa-code", "fas fa-paint-brush").\<newline>'' @
     ''           - "studies": (array of strings) A list of 3-4 recommended subjects or fields of study for this career.\<newline>'' @
     ''\<newline>'' @
     ''        2. "hobbies": This must be an array of exactly 2 hobby objects.\<newline>'' @
     ''           Each hobby object must have the following properties:\<newline>'' @
     ''           - "hobby": (string) The name of the hobby.\<newline>'' @
     ''           - "icon": (string) The Font Awesome icon name for this hobby (e.g., "fas fa-book", "fas fa-music").\<newline>'' @
     ''           - "description": (string) A brief description of the hobby.\<newline>'' @
     ''\<newline>'' @
     ''        Example of a valid response format:\<newline>'' @
     ''        {\<newline>'' @
     ''          "careers": [\<newline>'' @
     ''            {\<newline>'' @
     ''              "career": "Software Engineer",\<newline>'' @
     ''              "icon": "fas fa-code",\<newline>'' @
     ''              "studies": ["Computer Science", "Software Engineering", "Data Structures and Algorithms"]\<newline>'' @
     ''            },\<newline>'' @
     ''            {\<newline>'' @
     ''              "career": "Graphic Designer",\<newline>'' @
     ''              "icon": "fas fa-paint-brush",\<newline>'' @
     ''              "studies": ["Visual Arts", "Digital Media", "Typography", "UI/UX Design"]\<newline>'' @
     ''            }\<newline>'' @
     ''          ],\<newline>'' @
     ''          "hobbies": [\<newline>'' @
     ''            {\<newline>'' @
     ''              "hobby": "Creative Writing",\<newline>'' @
     ''              "icon": "fas fa-pen-nib",\<newline>'' @
     ''              "description": "Explore storytelling and express your ideas through writing."\<newline>'' @
     ''            },\<newline>'' @
     ''            {\<newline>'' @
     ''              "hobby": "Play a Musical Instrument",\<newline>'' @
     ''              "icon": "fas fa-guitar",\<newline>'' @
     ''              "description": "Learn to play an instrument to enhance creativity and discipline."\<newline>'' @
     ''            }\<newline>'' @
     ''          ]\<newline>'' @
     ''        }\<newline>'' @
     ''    ''\<close>

definition chat_prompt_p0 :: string where
  \<open>chat_prompt_p0 =
     ''\<newline>'' @
     ''        You are Eva, a friendly and knowledgeable AI career counselor for a website called EduAdvisor.Ai.\<newline>'' @
     ''        Your tone should be encouraging, helpful, and professional, but not overly robotic.\<newline>'' @
     ''        Keep your answers concise and easy to read, ideally in 2-4 sentences.\<newline>'' @
     ''        Your primary goal is to answer user questions about careers, skills, education paths, and job searching.\<newline>'' @
     ''        If a user asks something outside of this scope, gently guide them back to career-related topics.\<newline>'' @
     ''        Do not answer questions about your own nature as an AI or about programming.\<newline>'' @
     ''    ''\<close>



section \<open>src/server.js\<close>

subsection \<open>POST /api/recommendations\<close>

definition interests_rejected :: "jsval \<Rightarrow> bool" where
  "interests_rejected interests =
     (\<not> truthy interests \<or> typeof interests \<noteq> ''string'' \<or>
      (case interests of Some (JStr s) \<Rightarrow> trim s = [] | _ \<Rightarrow> True))"

definition interests_text :: "jsval \<Rightarrow> string" where
  "interests_text interests =
     (case interests of None \<Rightarrow> ''undefined'' | Some j \<Rightarrow> to_string j)"

definition recommendations_request :: "string option \<Rightarrow> jsval \<Rightarrow> request" where
  "recommendations_request apiKey interests =
     \<lparr> post_url = api_url apiKey,
       post_payload = JObj
         [(''contents'', JArr [JObj [(''parts'',
             JArr [JObj [(''text'', JStr (''User interests: '' @ interests_text interests))]])]]),
          (''systemInstruction'', system_instruction recommendations_prompt),
          (''generationConfig'', JObj [(''responseMimeType'', JStr ''application/json'')])],
       post_timeout = Some 15000 \<rparr>"

text \<open>The \<^verbatim>\<open>try\<close> block, from the settled \<^verbatim>\<open>axios.post\<close> on.\<close>

definition raw_text :: "json \<Rightarrow> exn + jsval" where
  "raw_text data =
     then_do (member_of (Some data) ''candidates'') (\<lambda>candidates.
       let candidate = opt_index0 candidates
       in Inr (opt_member (opt_index0 (opt_member (opt_member candidate ''content'') ''parts''))
                 ''text''))"

definition recommendations_try :: "axios_result \<Rightarrow> exn + json" where
  "recommendations_try geminiResponse =
     (case geminiResponse of
        Rejected f \<Rightarrow> Inl (AxiosError f)
      | Resolved data \<Rightarrow>
          then_do (raw_text data) (\<lambda>rawText.
            if \<not> truthy rawText then Inl (Error ''The AI returned an empty response.'')
            else JSON_parse rawText))"

definition recommendations :: "upstream \<Rightarrow> string option \<Rightarrow> (string \<times> json) list \<Rightarrow> outcome \<times> request list" where
  "recommendations post apiKey body =
     (let interests = map_of body ''interests''
      in if \<not> key_present apiKey
         then (Responded 500
                 (error_body ''Server configuration error: Missing API key for the AI service.''), [])
         else if interests_rejected interests
         then (Responded 400 (error_body ''Interests are required.''), [])
         else
           let rq = recommendations_request apiKey interests
           in (case recommendations_try (post rq) of
                 Inr recommendations \<Rightarrow> Responded 200 recommendations
               | Inl error \<Rightarrow>
                   Responded 500
                     (error_body ''Failed to get recommendations from the AI. Please try again later.''),
               [rq]))"

subsection \<open>POST /api/chat\<close>

text \<open>
  \<^verbatim>\<open>history.map(item => ({ role: item.role, parts: item.parts }))\<close> stands before the
  \<^verbatim>\<open>try\<close> block. Only an array has a \<^verbatim>\<open>map\<close> method (a JSON value is never a
  function), and reading a property of a \<^verbatim>\<open>null\<close> item throws.
\<close>

definition turn_of :: "json \<Rightarrow> exn + json" where
  "turn_of item =
     then_do (member_of (Some item) ''role'') (\<lambda>role.
       then_do (member_of (Some item) ''parts'') (\<lambda>parts.
         Inr (JObj (object_of [(''role'', role), (''parts'', parts)]))))"

fun map_turns :: "json list \<Rightarrow> exn + json list" where
  "map_turns [] = Inr []"
| "map_turns (item # items) =
     then_do (turn_of item) (\<lambda>t. then_do (map_turns items) (\<lambda>ts. Inr (t # ts)))"

fun history_map :: "jsval \<Rightarrow> exn + json list" where
  "history_map (Some (JArr items)) = map_turns items"
| "history_map _ = Inl TypeError"

definition chat_request :: "string option \<Rightarrow> json list \<Rightarrow> request" where
  "chat_request apiKey contents =
     \<lparr> post_url = api_url apiKey,
       post_payload = JObj
         [(''contents'', JArr contents),
          (''systemInstruction'', system_instruction chat_prompt)],
       post_timeout = None \<rparr>"

text \<open>\<^verbatim>\<open>data.candidates[0].content.parts[0].text\<close>, without optional chaining.\<close>

definition candidate_text :: "json \<Rightarrow> exn + jsval" where
  "candidate_text data =
     then_do (member_of (Some data) ''candidates'') (\<lambda>candidates.
     then_do (index0 candidates) (\<lambda>candidate.
     then_do (member_of candidate ''content'') (\<lambda>content.
     then_do (member_of content ''parts'') (\<lambda>parts.
     then_do (index0 parts) (\<lambda>part.
     member_of part ''text'')))))"

definition chat_try :: "axios_result \<Rightarrow> exn + jsval" where
  "chat_try geminiResponse =
     (case geminiResponse of
        Rejected f \<Rightarrow> Inl (AxiosError f)
      | Resolved data \<Rightarrow> candidate_text data)"

definition chat :: "upstream \<Rightarrow> string option \<Rightarrow> (string \<times> json) list \<Rightarrow> outcome \<times> request list" where
  "chat post apiKey body =
     (let history = map_of body ''history''
      in if \<not> key_present apiKey
         then (Responded 500 (error_body ''Server configuration error.''), [])
         else if \<not> truthy history
         then (Responded 400 (error_body ''Chat history is required.''), [])
         else (case history_map history of
                 Inl error \<Rightarrow> (Escaped error, [])
               | Inr contents \<Rightarrow>
                   let rq = chat_request apiKey contents
                   in (case chat_try (post rq) of
                         Inr message \<Rightarrow> Responded 200 (JObj (object_of [(''message'', message)]))
                       | Inl error \<Rightarrow>
                           Responded 500
                             (error_body ''Failed to get a response from the AI counselor.''),
                       [rq])))"

section \<open>src/unnamed/part_000\<close>

subsection \<open>POST /api/recommendations\<close>

definition recommendations_request_p0 :: "string option \<Rightarrow> jsval \<Rightarrow> request" where
  \<open>recommendations_request_p0 apiKey interests =
     \<lparr> post_url = api_url apiKey,
       post_payload = JObj
         [(''contents'', JArr [JObj [(''parts'',
             JArr [JObj [(''text'', JStr (''User\'s interests: '' @ interests_text interests))]])]]),
          (''systemInstruction'', system_instruction recommendations_prompt_p0),
          (''generationConfig'', JObj [(''responseMimeType'', JStr ''application/json'')])],
       post_timeout = None \<rparr>\<close>

text \<open>
  \<^verbatim>\<open>responseData.replace(/```json/g, '').replace(/```/g, '').trim()\<close>: only a string
  has a \<^verbatim>\<open>replace\<close> method.
\<close>

definition clean :: "string \<Rightarrow> string" where
  "clean responseData = trim (remove_all ''```'' (remove_all ''```json'' responseData))"

fun cleanedData :: "jsval \<Rightarrow> exn + string" where
  "cleanedData (Some (JStr s)) = Inr (clean s)"
| "cleanedData _ = Inl TypeError"

definition recommendations_try_p0 :: "axios_result \<Rightarrow> exn + json" where
  "recommendations_try_p0 apiResponse =
     (case apiResponse of
        Rejected f \<Rightarrow> Inl (AxiosError f)
      | Resolved data \<Rightarrow>
          then_do (candidate_text data) (\<lambda>responseData.
          then_do (cleanedData responseData) (\<lambda>cleaned.
          then_do (JSON_parse (Some (JStr cleaned))) (\<lambda>jsonData.
            if \<not> truthy (Some jsonData) \<or> \<not> isArray (get_prop jsonData ''careers'')
               \<or> \<not> isArray (get_prop jsonData ''hobbies'')
            then Inl (Error ''Invalid JSON structure received from AI.'')
            else Inr jsonData))))"

definition recommendations_p0 :: "upstream \<Rightarrow> string option \<Rightarrow> (string \<times> json) list \<Rightarrow> outcome \<times> request list" where
  "recommendations_p0 post apiKey body =
     (let interests = map_of body ''interests''
      in if \<not> key_present apiKey
         then (Responded 500
                 (error_body ''Server configuration error: Missing API key for the AI service.''), [])
         else if interests_rejected interests
         then (Responded 400 (error_body ''Interests are required.''), [])
         else
           let rq = recommendations_request_p0 apiKey interests
           in (case recommendations_try_p0 (post rq) of
                 Inr jsonData \<Rightarrow> Responded 200 jsonData
               | Inl error \<Rightarrow>
                   Responded 500
                     (error_body ''Failed to get recommendations from the AI. Please try again later.''),
               [rq]))"

subsection \<open>POST /api/chat\<close>

text \<open>The history is the \<^verbatim>\<open>contents\<close> of the payload as it came.\<close>

definition chat_request_p0 :: "string option \<Rightarrow> jsval \<Rightarrow> request" where
  "chat_request_p0 apiKey history =
     \<lparr> post_url = api_url apiKey,
       post_payload = JObj (object_of
         [(''contents'', history),
          (''systemInstruction'', Some (system_instruction chat_prompt_p0))]),
       post_timeout = None \<rparr>"

definition chat_p0 :: "upstream \<Rightarrow> string option \<Rightarrow> (string \<times> json) list \<Rightarrow> outcome \<times> request list" where
  "chat_p0 post apiKey body =
     (let history = map_of body ''history''
      in if \<not> key_present apiKey
         then (Responded 500 (error_body ''Server configuration error.''), [])
         else if \<not> truthy history
         then (Responded 400 (error_body ''Chat history is required.''), [])
         else
           let rq = chat_request_p0 apiKey history
           in (case chat_try (post rq) of
                 Inr message \<Rightarrow> Responded 200 (JObj (object_of [(''message'', message)]))
               | Inl error \<Rightarrow>
                   Responded 500 (error_body ''Failed to get a response from the AI.''),
               [rq]))"

section \<open>Notions of the specification\<close>

text \<open>
  A stub upstream settles every call the same way. A reply of the documented shape
  \<^verbatim>\<open>{ candidates: [{ content: { parts: [{ text }] } }] }\<close> carries one text.
\<close>

definition stub :: "axios_result \<Rightarrow> upstream" where
  "stub r rq = r"

definition reply_data :: "jsval \<Rightarrow> json" where
  "reply_data text =
     JObj [(''candidates'', JArr [JObj [(''content'',
       JObj [(''parts'', JArr [JObj (object_of [(''text'', text)])])])]])]"

definition reply_with :: "jsval \<Rightarrow> axios_result" where
  "reply_with text = Resolved (reply_data text)"

text \<open>
  The text of the first part of the first candidate of a reply body, \<^verbatim>\<open>undefined\<close>
  when any step on the way to it is missing.
\<close>

definition first_text :: "json \<Rightarrow> jsval" where
  "first_text data =
     opt_member (opt_index0 (opt_member (opt_member (opt_index0
       (opt_member (Some data) ''candidates'')) ''content'') ''parts'')) ''text''"

definition missing_or_empty :: "jsval \<Rightarrow> bool" where
  "missing_or_empty v = (v = None \<or> v = Some JNull \<or> v = Some (JStr []))"

text \<open>A JSON text wrapped in a markdown code fence.\<close>

definition fenced :: "string \<Rightarrow> string" where
  "fenced t = ''```json\<newline>'' @ t @ ''\<newline>```''"

fun contains :: "string \<Rightarrow> string \<Rightarrow> bool" where
  "contains pat [] = (pat = [])"
| "contains pat (c # cs) = (take (length pat) (c # cs) = pat \<or> contains pat cs)"

text \<open>
  The data model of the specification: a chat turn
  \<^verbatim>\<open>{ role: string, parts: [{ text: string }, ...] }\<close>, a career entry
  \<^verbatim>\<open>{ career: string, studies: [string, string, string], icon: string }\<close>, a hobby entry
  \<^verbatim>\<open>{ hobby: string, description: string, icon: string }\<close>, and a recommendation result
  with 2 to 4 career entries and 2 to 3 hobby entries.
\<close>

fun is_string :: "jsval \<Rightarrow> bool" where
  "is_string (Some (JStr s)) = True"
| "is_string _ = False"



definition is_career_entry :: "json \<Rightarrow> bool" where
  "is_career_entry c =
     (is_string (get_prop c ''career'') \<and> is_string (get_prop c ''icon'') \<and>
      (case get_prop c ''studies'' of
         Some (JArr ss) \<Rightarrow> length ss = 3 \<and> list_all (\<lambda>x. is_string (Some x)) ss
       | _ \<Rightarrow> False))"

definition is_hobby_entry :: "json \<Rightarrow> bool" where
  "is_hobby_entry h =
     (is_string (get_prop h ''hobby'') \<and> is_string (get_prop h ''description'') \<and>
      is_string (get_prop h ''icon''))"

definition is_recommendation_result :: "json \<Rightarrow> bool" where
  "is_recommendation_result v =
     (case get_prop v ''careers'' of
        Some (JArr cs) \<Rightarrow>
          (case get_prop v ''hobbies'' of
             Some (JArr hs) \<Rightarrow>
               2 \<le> length cs \<and> length cs \<le> 4 \<and> list_all is_career_entry cs \<and>
               2 \<le> length hs \<and> length hs \<le> 3 \<and> list_all is_hobby_entry hs
           | _ \<Rightarrow> False)
      | _ \<Rightarrow> False)"




section \<open>Properties of the handlers\<close>

subsection \<open>Input checks\<close>

lemma trim_blank:
  assumes "list_all js_space s"
  shows "trim s = []"
proof -
  have h: "dropWhile js_space s = []"
    using assms by (induction s) auto
  show ?thesis unfolding trim_def h by simp
qed

lemma interests_rejected_blank:
  "list_all js_space s \<Longrightarrow> interests_rejected (Some (JStr s))"
  by (simp add: interests_rejected_def trim_blank)

lemma interests_rejected_non_string:
  "\<forall>s. v \<noteq> Some (JStr s) \<Longrightarrow> interests_rejected v"
  by (cases v rule: typeof.cases) (simp_all add: interests_rejected_def)

lemma interests_accepted:
  "trim s \<noteq> [] \<Longrightarrow> \<not> interests_rejected (Some (JStr s))"
  by (auto simp: interests_rejected_def trim_def)

lemma key_present_Some: "key_present (Some ''k'')"
  by (simp add: key_present_def)

text \<open>
  C6. When the API key is not configured (the environment variable is unset or empty),
  each of the four handlers answers 500 with its configuration error and calls the
  upstream not at all, whatever the request body is: the key is checked before the
  input. The handler returns a response; no exception leaves it.
\<close>

theorem missing_key_is_configuration_error:
  assumes "\<not> key_present apiKey"
  shows "recommendations post apiKey body =
           (Responded 500
              (error_body ''Server configuration error: Missing API key for the AI service.''), []) \<and>
         recommendations_p0 post apiKey body =
           (Responded 500
              (error_body ''Server configuration error: Missing API key for the AI service.''), []) \<and>
         chat post apiKey body = (Responded 500 (error_body ''Server configuration error.''), []) \<and>
         chat_p0 post apiKey body = (Responded 500 (error_body ''Server configuration error.''), [])"
  using assms by (simp add: recommendations_def recommendations_p0_def chat_def chat_p0_def)

theorem missing_key_is_configuration_error_witness:
  "\<not> key_present None \<and>
   recommendations (stub (Rejected NoResponse)) None [(''interests'', JStr ''   '')] =
     (Responded 500
        (error_body ''Server configuration error: Missing API key for the AI service.''), []) \<and>
   chat_p0 (stub (Rejected NoResponse)) None [] =
     (Responded 500 (error_body ''Server configuration error.''), [])"
proof -
  have k: "\<not> key_present None" by (simp add: key_present_def)
  show ?thesis
    using k
      missing_key_is_configuration_error [OF k, of "stub (Rejected NoResponse)" "[(''interests'', JStr ''   '')]"]
      missing_key_is_configuration_error [OF k, of "stub (Rejected NoResponse)" "[]"]
    by simp
qed

text \<open>
  C5. With the API key configured (without it the configuration error of C6 comes
  first), an \<^verbatim>\<open>interests\<close> that is the empty string or consists of white space only is
  answered 400 with \<^verbatim>\<open>{ error: 'Interests are required.' }\<close> by the recommendation
  handler of either file, and the upstream is not called.
\<close>

theorem blank_interests_rejected:
  assumes "key_present apiKey"
    and "map_of body ''interests'' = Some (JStr s)"
    and "list_all js_space s"
  shows "recommendations post apiKey body = (Responded 400 (error_body ''Interests are required.''), []) \<and>
         recommendations_p0 post apiKey body = (Responded 400 (error_body ''Interests are required.''), [])"
  using assms by (simp add: recommendations_def recommendations_p0_def interests_rejected_blank)

theorem blank_interests_rejected_witness:
  "key_present (Some ''k'') \<and> list_all js_space [] \<and> list_all js_space ''   '' \<and>
   recommendations (stub (Rejected NoResponse)) (Some ''k'') [(''interests'', JStr [])] =
     (Responded 400 (error_body ''Interests are required.''), []) \<and>
   recommendations_p0 (stub (Rejected NoResponse)) (Some ''k'') [(''interests'', JStr ''   '')] =
     (Responded 400 (error_body ''Interests are required.''), [])"
proof -
  have e: "list_all js_space []" by simp
  have b: "list_all js_space ''   ''" by (simp add: js_space_def)
  have m1: "map_of [(''interests'', JStr [])] ''interests'' = Some (JStr [])" by simp
  have m2: "map_of [(''interests'', JStr ''   '')] ''interests'' = Some (JStr ''   '')" by simp
  show ?thesis
    using key_present_Some e b
      blank_interests_rejected [OF key_present_Some m1 e, of "stub (Rejected NoResponse)"]
      blank_interests_rejected [OF key_present_Some m2 b, of "stub (Rejected NoResponse)"]
    by simp
qed

text \<open>
  C10. With the API key configured, an \<^verbatim>\<open>interests\<close> that is not a string (absent, null,
  a boolean, a number, an array, an object) is answered 400 by the recommendation handler
  of either file, and the upstream is not called.
\<close>

theorem non_string_interests_rejected:
  assumes "key_present apiKey"
    and "\<forall>s. map_of body ''interests'' \<noteq> Some (JStr s)"
  shows "recommendations post apiKey body = (Responded 400 (error_body ''Interests are required.''), []) \<and>
         recommendations_p0 post apiKey body = (Responded 400 (error_body ''Interests are required.''), [])"
  using assms by (simp add: recommendations_def recommendations_p0_def interests_rejected_non_string)

theorem non_string_interests_rejected_witness:
  "key_present (Some ''k'') \<and>
   (\<forall>s. map_of [(''interests'', JNum ''42'')] ''interests'' \<noteq> Some (JStr s)) \<and>
   recommendations (stub (Rejected NoResponse)) (Some ''k'') [(''interests'', JNum ''42'')] =
     (Responded 400 (error_body ''Interests are required.''), []) \<and>
   recommendations_p0 (stub (Rejected NoResponse)) (Some ''k'') [(''interests'', JArr [JStr ''art''])] =
     (Responded 400 (error_body ''Interests are required.''), [])"
proof -
  have n: "\<forall>s. map_of [(''interests'', JNum ''42'')] ''interests'' \<noteq> Some (JStr s)" by simp
  have a: "\<forall>s. map_of [(''interests'', JArr [JStr ''art''])] ''interests'' \<noteq> Some (JStr s)" by simp
  show ?thesis
    using key_present_Some n
      non_string_interests_rejected [OF key_present_Some n, of "stub (Rejected NoResponse)"]
      non_string_interests_rejected [OF key_present_Some a, of "stub (Rejected NoResponse)"]
    by simp
qed

subsection \<open>The handler boundary\<close>

text \<open>
  C4. In \<^verbatim>\<open>src/server.js\<close> the chat handler maps over the history before its
  \<^verbatim>\<open>try\<close> block. A history that is present but not an array, here the string
  \<^verbatim>\<open>"hello"\<close>, has no \<^verbatim>\<open>map\<close> method: the TypeError leaves the handler, no response
  is sent and the upstream is not called.
\<close>

theorem chat_map_escapes:
  "chat (stub (reply_with (Some (JStr ''Hello!'')))) (Some ''k'') [(''history'', JStr ''hello'')] =
     (Escaped TypeError, [])"
  by (simp add: chat_def key_present_def)

text \<open>
  The other three handlers do all their work after the input checks inside the
  \<^verbatim>\<open>try\<close> block: whatever the upstream does, they send a response.
\<close>

lemma other_handlers_respond:
  "(\<exists>status b. fst (recommendations post apiKey body) = Responded status b) \<and>
   (\<exists>status b. fst (recommendations_p0 post apiKey body) = Responded status b) \<and>
   (\<exists>status b. fst (chat_p0 post apiKey body) = Responded status b)"
  by (simp add: recommendations_def recommendations_p0_def chat_p0_def Let_def split: sum.splits)


subsection \<open>Reading the reply\<close>

lemma member_of_cases:
  "member_of x k = Inl TypeError \<or> member_of x k = Inr (opt_member x k)"
  by (cases x rule: truthy.cases) simp_all

lemma index0_cases:
  "index0 x = Inl TypeError \<or> index0 x = Inr (opt_index0 x)"
  by (cases x rule: truthy.cases) simp_all

lemma then_do_step:
  assumes "r = Inl TypeError \<or> r = Inr v"
    and "f v = Inl TypeError \<or> f v = Inr w"
  shows "then_do r f = Inl TypeError \<or> then_do r f = Inr w"
  using assms by (auto simp: then_do_def)

lemma candidate_text_cases:
  "candidate_text data = Inl TypeError \<or> candidate_text data = Inr (first_text data)"
  unfolding candidate_text_def first_text_def
  by (rule then_do_step, rule member_of_cases, rule then_do_step, rule index0_cases,
      rule then_do_step, rule member_of_cases, rule then_do_step, rule member_of_cases,
      rule then_do_step, rule index0_cases, rule member_of_cases)

lemma raw_text_cases:
  "raw_text data = Inl TypeError \<or> raw_text data = Inr (first_text data)"
  unfolding raw_text_def first_text_def then_do_def
  using member_of_cases [of "Some data" "''candidates''"] by (auto simp: Let_def split: sum.splits)

lemma json_parse_text_empty: "json_parse_text [] = None"
  by (simp add: json_parse_text_def lex_def)

lemma recommendations_try_empty:
  assumes "missing_or_empty (first_text data)"
  shows "\<exists>e. recommendations_try (Resolved data) = Inl e"
  using assms raw_text_cases [of data]
  by (auto simp: recommendations_try_def then_do_def missing_or_empty_def)

lemma recommendations_try_p0_empty:
  assumes "missing_or_empty (first_text data)"
  shows "\<exists>e. recommendations_try_p0 (Resolved data) = Inl e"
  using assms candidate_text_cases [of data]
  by (auto simp: recommendations_try_p0_def then_do_def missing_or_empty_def clean_def trim_def
        JSON_parse_def json_parse_text_empty)


lemma trim_art: "trim ''art'' \<noteq> []"
  by (simp add: trim_def js_space_def)

text \<open>
  C9. With the key configured and an accepted \<^verbatim>\<open>interests\<close>, when the upstream
  resolves (a 2xx status) with a body whose first candidate's first text part is missing
  (at any step on the way to it), null or the empty string, the recommendation handler of
  either file answers 500 with its \<^verbatim>\<open>{ error: ... }\<close> body, not with a success.
\<close>

theorem empty_candidate_is_error:
  assumes "key_present apiKey"
    and "map_of body ''interests'' = Some (JStr s)"
    and "trim s \<noteq> []"
    and "missing_or_empty (first_text data)"
  shows "fst (recommendations (stub (Resolved data)) apiKey body) =
           Responded 500
             (error_body ''Failed to get recommendations from the AI. Please try again later.'') \<and>
         fst (recommendations_p0 (stub (Resolved data)) apiKey body) =
           Responded 500
             (error_body ''Failed to get recommendations from the AI. Please try again later.'')"
proof -
  obtain e where e: "recommendations_try (Resolved data) = Inl e"
    using recommendations_try_empty [OF assms(4)] by blast
  obtain e' where e': "recommendations_try_p0 (Resolved data) = Inl e'"
    using recommendations_try_p0_empty [OF assms(4)] by blast
  show ?thesis
    using assms(1,2) interests_accepted [OF assms(3)] e e'
    by (simp add: recommendations_def recommendations_p0_def stub_def)
qed

theorem empty_candidate_is_error_witness:
  "key_present (Some ''k'') \<and> trim ''art'' \<noteq> [] \<and>
   missing_or_empty (first_text (reply_data (Some (JStr [])))) \<and>
   missing_or_empty (first_text (JObj [(''candidates'', JArr [])])) \<and>
   fst (recommendations (stub (Resolved (reply_data (Some (JStr []))))) (Some ''k'')
          [(''interests'', JStr ''art'')]) =
     Responded 500
       (error_body ''Failed to get recommendations from the AI. Please try again later.'') \<and>
   fst (recommendations_p0 (stub (Resolved (JObj [(''candidates'', JArr [])]))) (Some ''k'')
          [(''interests'', JStr ''art'')]) =
     Responded 500
       (error_body ''Failed to get recommendations from the AI. Please try again later.'')"
proof -
  have m: "map_of [(''interests'', JStr ''art'')] ''interests'' = Some (JStr ''art'')" by simp
  have a: "missing_or_empty (first_text (reply_data (Some (JStr []))))"
    by (simp add: missing_or_empty_def first_text_def reply_data_def)
  have b: "missing_or_empty (first_text (JObj [(''candidates'', JArr [])]))"
    by (simp add: missing_or_empty_def first_text_def)
  show ?thesis
    using key_present_Some trim_art a b
      empty_candidate_is_error [OF key_present_Some m trim_art a]
      empty_candidate_is_error [OF key_present_Some m trim_art b]
    by simp
qed

subsection \<open>The timeout of the upstream call\<close>

text \<open>
  C3 as stated fails on \<^verbatim>\<open>src/unnamed/part_000\<close>: the one upstream call of its
  recommendation handler carries no timeout option.
\<close>

theorem part_000_recommendations_no_timeout:
  "map post_timeout
     (snd (recommendations_p0 (stub (Rejected NoResponse)) (Some ''k'')
             [(''interests'', JStr ''art'')])) = [None]"
  using interests_accepted [OF trim_art]
  by (simp add: recommendations_p0_def key_present_def recommendations_request_p0_def Let_def)

text \<open>
  C3, as amended. Every upstream call of the recommendation handler of
  \<^verbatim>\<open>src/server.js\<close> carries the option \<^verbatim>\<open>timeout: 15000\<close>; every call of the
  chat handler of either file, and of the recommendation handler of
  \<^verbatim>\<open>src/unnamed/part_000\<close>, carries no timeout option.
\<close>

theorem upstream_timeouts:
  "(\<forall>rq \<in> set (snd (recommendations post apiKey body)). post_timeout rq = Some 15000) \<and>
   (\<forall>rq \<in> set (snd (chat post apiKey body)). post_timeout rq = None) \<and>
   (\<forall>rq \<in> set (snd (recommendations_p0 post apiKey body)). post_timeout rq = None) \<and>
   (\<forall>rq \<in> set (snd (chat_p0 post apiKey body)). post_timeout rq = None)"
  by (simp add: recommendations_def chat_def recommendations_p0_def chat_p0_def Let_def
        recommendations_request_def chat_request_def recommendations_request_p0_def
        chat_request_p0_def split: sum.splits)

theorem upstream_timeouts_witness:
  "map post_timeout
     (snd (recommendations (stub (Rejected NoResponse)) (Some ''k'')
             [(''interests'', JStr ''art'')])) = [Some 15000] \<and>
   map post_timeout
     (snd (chat (stub (Rejected NoResponse)) (Some ''k'') [(''history'', JArr [])])) = [None] \<and>
   map post_timeout
     (snd (chat_p0 (stub (Rejected NoResponse)) (Some ''k'') [(''history'', JArr [])])) = [None]"
proof -
  have r: "snd (recommendations (stub (Rejected NoResponse)) (Some ''k'')
             [(''interests'', JStr ''art'')]) =
           [recommendations_request (Some ''k'') (Some (JStr ''art''))]"
    using interests_accepted [OF trim_art] by (simp add: recommendations_def key_present_def Let_def)
  have c: "snd (chat (stub (Rejected NoResponse)) (Some ''k'') [(''history'', JArr [])]) =
           [chat_request (Some ''k'') []]"
    by (simp add: chat_def key_present_def then_do_def Let_def)
  have c0: "snd (chat_p0 (stub (Rejected NoResponse)) (Some ''k'') [(''history'', JArr [])]) =
           [chat_request_p0 (Some ''k'') (Some (JArr []))]"
    by (simp add: chat_p0_def key_present_def Let_def)
  show ?thesis
    using upstream_timeouts [of "stub (Rejected NoResponse)" "Some ''k''" "[(''interests'', JStr ''art'')]"]
      upstream_timeouts [of "stub (Rejected NoResponse)" "Some ''k''" "[(''history'', JArr [])]"]
    unfolding r c c0 by simp
qed

subsection \<open>The chat handlers\<close>













subsection \<open>Removing the code fence\<close>

lemma take_is_pattern:
  assumes "c \<notin> set pat"
  shows "take (length pat) (s @ c # rest) = pat \<longleftrightarrow> take (length pat) s = pat"
proof (cases "length pat \<le> length s")
  case True
  then show ?thesis by simp
next
  case False
  then obtain n where n: "length pat - length s = Suc n"
    by (cases "length pat - length s") simp_all
  have t: "take (length pat) (s @ c # rest) = s @ c # take n rest"
    using False n by simp
  have "take (length pat) (s @ c # rest) \<noteq> pat"
  proof
    assume "take (length pat) (s @ c # rest) = pat"
    then have "pat = s @ c # take n rest" using t by simp
    then have "c \<in> set pat" by simp
    with assms show False by simp
  qed
  moreover have "take (length pat) s \<noteq> pat"
  proof
    assume "take (length pat) s = pat"
    then have "length (take (length pat) s) = length pat" by simp
    with False show False by simp
  qed
  ultimately show ?thesis by simp
qed


lemma remove_all_match:
  assumes "pat \<noteq> []" and "take (length pat) (c # cs) = pat"
  shows "remove_all pat (c # cs) = remove_all pat (drop (length pat) (c # cs))"
  by (subst remove_all.simps(2)) (simp only: assms simp_thms if_True)

lemma remove_all_skip:
  assumes "\<not> (pat \<noteq> [] \<and> take (length pat) (c # cs) = pat)"
  shows "remove_all pat (c # cs) = c # remove_all pat cs"
  by (subst remove_all.simps(2)) (simp only: assms if_False)

lemma remove_all_split:
  assumes "c \<notin> set pat"
  shows "remove_all pat (s @ c # rest) = remove_all pat s @ remove_all pat (c # rest)"
  using assms
proof (induction pat s rule: remove_all.induct)
  case (1 pat)
  show ?case by (simp only: remove_all.simps(1) append_Nil)
next
  case (2 pat d ds)
  have c: "c \<notin> set pat" by fact
  have t: "take (length pat) (d # (ds @ c # rest)) = pat \<longleftrightarrow>
           take (length pat) (d # ds) = pat"
    using take_is_pattern [OF c, of "d # ds" rest] by simp
  show ?case
  proof (cases "pat \<noteq> [] \<and> take (length pat) (d # ds) = pat")
    case True
    then have "length (take (length pat) (d # ds)) = length pat" by simp
    then have l: "length pat \<le> length (d # ds)" by simp
    have m: "take (length pat) (d # (ds @ c # rest)) = pat"
      using True t by blast
    have "remove_all pat ((d # ds) @ c # rest) = remove_all pat (d # (ds @ c # rest))"
      by simp
    also have "\<dots> = remove_all pat (drop (length pat) (d # (ds @ c # rest)))"
      using True m by (intro remove_all_match) simp_all
    also have "drop (length pat) (d # (ds @ c # rest)) = drop (length pat) (d # ds) @ c # rest"
    proof -
      have "drop (length pat) ((d # ds) @ c # rest) =
              drop (length pat) (d # ds) @ drop (length pat - length (d # ds)) (c # rest)"
        by (rule drop_append)
      moreover have "length pat - length (d # ds) = 0" using l by simp
      ultimately show ?thesis by (simp only: append_Cons drop_0)
    qed
    also have "remove_all pat (drop (length pat) (d # ds) @ c # rest) =
                 remove_all pat (drop (length pat) (d # ds)) @ remove_all pat (c # rest)"
      using "2.IH"(1) True c by blast
    also have "remove_all pat (drop (length pat) (d # ds)) = remove_all pat (d # ds)"
      using True by (intro remove_all_match [symmetric]) simp_all
    finally show ?thesis .
  next
    case False
    then have n: "\<not> (pat \<noteq> [] \<and> take (length pat) (d # (ds @ c # rest)) = pat)"
      using t by blast
    have "remove_all pat ((d # ds) @ c # rest) = remove_all pat (d # (ds @ c # rest))"
      by simp
    also have "\<dots> = d # remove_all pat (ds @ c # rest)"
      using n by (rule remove_all_skip)
    also have "remove_all pat (ds @ c # rest) = remove_all pat ds @ remove_all pat (c # rest)"
      using "2.IH"(2) False c by blast
    also have "d # (remove_all pat ds @ remove_all pat (c # rest)) =
                 remove_all pat (d # ds) @ remove_all pat (c # rest)"
      using remove_all_skip [OF False] by simp
    finally show ?thesis .
  qed
qed


lemma trim_leading: "js_space c \<Longrightarrow> trim (c # s) = trim s"
  by (simp add: trim_def)

lemma trim_trailing:
  assumes "js_space c"
  shows "trim (s @ [c]) = trim s"
proof (cases "list_all js_space s")
  case True
  then have "list_all js_space (s @ [c])" using assms by simp
  then have "trim (s @ [c]) = []" by (rule trim_blank)
  moreover have "trim s = []" using True by (rule trim_blank)
  ultimately show ?thesis by simp
next
  case False
  then obtain x where "x \<in> set s" "\<not> js_space x"
    by (auto simp: list_all_iff)
  then have "dropWhile js_space (s @ [c]) = dropWhile js_space s @ [c]"
    by (simp add: dropWhile_append1)
  then show ?thesis using assms by (simp add: trim_def)
qed

lemma remove_json_fence:
  "remove_all ''```json'' (fenced t) = CHR 0x0A # remove_all ''```json'' t @ ''\<newline>```''"
proof -
  have "remove_all ''```json'' (fenced t) = remove_all ''```json'' (CHR 0x0A # t @ ''\<newline>```'')"
    by (simp add: fenced_def)
  also have "\<dots> = CHR 0x0A # remove_all ''```json'' (t @ CHR 0x0A # ''```'')"
    by simp
  also have "remove_all ''```json'' (t @ CHR 0x0A # ''```'') =
               remove_all ''```json'' t @ remove_all ''```json'' (CHR 0x0A # ''```'')"
    by (rule remove_all_split) simp
  also have "remove_all ''```json'' (CHR 0x0A # ''```'') = ''\<newline>```''"
    by simp
  finally show ?thesis .
qed

lemma remove_fence:
  "remove_all ''```'' (CHR 0x0A # u @ ''\<newline>```'') = CHR 0x0A # remove_all ''```'' u @ [CHR 0x0A]"
proof -
  have "remove_all ''```'' (CHR 0x0A # u @ ''\<newline>```'') =
          CHR 0x0A # remove_all ''```'' (u @ CHR 0x0A # ''```'')"
    by simp
  also have "remove_all ''```'' (u @ CHR 0x0A # ''```'') =
               remove_all ''```'' u @ remove_all ''```'' (CHR 0x0A # ''```'')"
    by (rule remove_all_split) simp
  also have "remove_all ''```'' (CHR 0x0A # ''```'') = [CHR 0x0A]"
    by simp
  finally show ?thesis .
qed

lemma clean_fenced: "clean (fenced t) = clean t"
proof -
  have s: "js_space (CHR 0x0A)" by (simp add: js_space_def)
  have "clean (fenced t) =
          trim (CHR 0x0A # remove_all ''```'' (remove_all ''```json'' t) @ [CHR 0x0A])"
    by (simp only: clean_def remove_json_fence remove_fence)
  also have "\<dots> = trim ((CHR 0x0A # remove_all ''```'' (remove_all ''```json'' t)) @ [CHR 0x0A])"
    by simp
  also have "\<dots> = trim (CHR 0x0A # remove_all ''```'' (remove_all ''```json'' t))"
    using s by (rule trim_trailing)
  also have "\<dots> = trim (remove_all ''```'' (remove_all ''```json'' t))"
    using s by (rule trim_leading)
  finally show ?thesis by (simp add: clean_def)
qed


subsection \<open>Parsing and checking the reply\<close>

lemma member_of_defined:
  "opt_member x k = Some v \<Longrightarrow> member_of x k = Inr (Some v) \<and> x \<noteq> None"
  by (cases x rule: truthy.cases) simp_all

lemma index0_defined:
  "opt_index0 x = Some v \<Longrightarrow> index0 x = Inr (Some v) \<and> x \<noteq> None"
  by (cases x rule: truthy.cases) simp_all

lemma candidate_text_defined:
  assumes "first_text data = Some v"
  shows "candidate_text data = Inr (Some v)"
proof -
  let ?a = "opt_member (Some data) ''candidates''"
  let ?b = "opt_index0 ?a"
  let ?c = "opt_member ?b ''content''"
  let ?d = "opt_member ?c ''parts''"
  let ?e = "opt_index0 ?d"
  have f: "opt_member ?e ''text'' = Some v"
    using assms by (simp only: first_text_def)
  from member_of_defined [OF f] obtain e where e: "?e = Some e" and m6: "member_of ?e ''text'' = Inr (Some v)"
    by blast
  from index0_defined [OF e] obtain d where d: "?d = Some d" and m5: "index0 ?d = Inr ?e"
    using e by auto
  from member_of_defined [OF d] obtain c where c: "?c = Some c" and m4: "member_of ?c ''parts'' = Inr ?d"
    using d by auto
  from member_of_defined [OF c] obtain b where b: "?b = Some b" and m3: "member_of ?b ''content'' = Inr ?c"
    using c by auto
  from index0_defined [OF b] obtain a where a: "?a = Some a" and m2: "index0 ?a = Inr ?b"
    using b by auto
  from member_of_defined [OF a] have m1: "member_of (Some data) ''candidates'' = Inr ?a"
    using a by auto
  show ?thesis
    unfolding candidate_text_def
    by (simp only: then_do_def m1 m2 m3 m4 m5 m6 sum.case)
qed

lemma raw_text_defined:
  assumes "first_text data = Some v"
  shows "raw_text data = Inr (Some v)"
proof -
  have "candidate_text data = Inr (Some v)"
    using assms by (rule candidate_text_defined)
  then have "member_of (Some data) ''candidates'' = Inr (opt_member (Some data) ''candidates'')"
    using member_of_cases [of "Some data" "''candidates''"]
    by (auto simp: candidate_text_def then_do_def)
  then show ?thesis
    using assms by (simp add: raw_text_def then_do_def first_text_def)
qed

lemma first_text_reply: "first_text (reply_data (Some v)) = Some v"
  by (simp add: first_text_def reply_data_def)

lemma lex_backtick: "lex (CHR ''`'' # cs) = None"
  by (simp add: lex_def start_token_def json_ws_def is_digit_def is_letter_def)

lemma JSON_parse_fenced: "JSON_parse (Some (JStr (fenced t))) = Inl SyntaxError"
proof -
  have "fenced t = CHR ''`'' # ''``json\<newline>'' @ t @ ''\<newline>```''"
    by (simp add: fenced_def)
  then have "lex (fenced t) = None"
    by (simp only: lex_backtick)
  then show ?thesis
    by (simp add: JSON_parse_def json_parse_text_def)
qed


lemma recommendations_p0_text:
  assumes "key_present apiKey"
    and "map_of body ''interests'' = Some (JStr s)"
    and "trim s \<noteq> []"
    and "first_text data = Some (JStr t)"
  shows "fst (recommendations_p0 (stub (Resolved data)) apiKey body) =
           (case json_parse_text (clean t) of
              None \<Rightarrow>
                Responded 500
                  (error_body ''Failed to get recommendations from the AI. Please try again later.'')
            | Some v \<Rightarrow>
                if truthy (Some v) \<and> isArray (get_prop v ''careers'') \<and> isArray (get_prop v ''hobbies'')
                then Responded 200 v
                else Responded 500
                  (error_body ''Failed to get recommendations from the AI. Please try again later.''))"
  using assms(1,2) interests_accepted [OF assms(3)] candidate_text_defined [OF assms(4)]
  by (simp add: recommendations_p0_def stub_def recommendations_try_p0_def then_do_def Let_def
        JSON_parse_def split: option.splits)

lemma recommendations_text:
  assumes "key_present apiKey"
    and "map_of body ''interests'' = Some (JStr s)"
    and "trim s \<noteq> []"
    and "first_text data = Some (JStr t)"
    and "t \<noteq> []"
  shows "fst (recommendations (stub (Resolved data)) apiKey body) =
           (case json_parse_text t of
              None \<Rightarrow>
                Responded 500
                  (error_body ''Failed to get recommendations from the AI. Please try again later.'')
            | Some v \<Rightarrow> Responded 200 v)"
  using assms(1,2,5) interests_accepted [OF assms(3)] raw_text_defined [OF assms(4)]
  by (simp add: recommendations_def stub_def recommendations_try_def then_do_def Let_def
        JSON_parse_def split: option.splits)

lemma isArray_truthy: "isArray (get_prop v k) \<Longrightarrow> truthy (Some v)"
  by (cases v) simp_all

lemma interests_art: "map_of [(''interests'', JStr ''art'')] ''interests'' = Some (JStr ''art'')"
  by simp

text \<open>
  C1 as stated fails on \<^verbatim>\<open>src/server.js\<close>: a reply whose text is the JSON object
  \<^verbatim>\<open>{"careers": []}\<close>, with no \<^verbatim>\<open>hobbies\<close>, is returned to the caller with
  status 200.
\<close>

theorem server_js_returns_unvalidated:
  \<open>fst (recommendations (stub (reply_with (Some (JStr ''{"careers": []}'')))) (Some ''k'')
          [(''interests'', JStr ''art'')]) =
     Responded 200 (JObj [(''careers'', JArr [])])\<close>
  by code_simp

text \<open>
  C1, as amended. With the key configured and an accepted \<^verbatim>\<open>interests\<close>, for a reply
  whose text is a string: the handler of \<^verbatim>\<open>src/unnamed/part_000\<close> returns the value
  that the cleaned text parses to when its \<^verbatim>\<open>careers\<close> and \<^verbatim>\<open>hobbies\<close> are
  both arrays, and answers 500 with the error body otherwise; the handler of
  \<^verbatim>\<open>src/server.js\<close> makes no such check and returns whatever value the text parses
  to, with status 200.
\<close>

theorem reply_shape_checked:
  assumes "key_present apiKey"
    and "map_of body ''interests'' = Some (JStr s)"
    and "trim s \<noteq> []"
    and "first_text data = Some (JStr t)"
  shows "(json_parse_text (clean t) = Some v \<longrightarrow>
            fst (recommendations_p0 (stub (Resolved data)) apiKey body) =
              (if isArray (get_prop v ''careers'') \<and> isArray (get_prop v ''hobbies'')
               then Responded 200 v
               else Responded 500
                 (error_body ''Failed to get recommendations from the AI. Please try again later.''))) \<and>
         (json_parse_text t = Some w \<longrightarrow>
            fst (recommendations (stub (Resolved data)) apiKey body) = Responded 200 w)"
proof (intro conjI impI)
  assume p: "json_parse_text (clean t) = Some v"
  show "fst (recommendations_p0 (stub (Resolved data)) apiKey body) =
              (if isArray (get_prop v ''careers'') \<and> isArray (get_prop v ''hobbies'')
               then Responded 200 v
               else Responded 500
                 (error_body ''Failed to get recommendations from the AI. Please try again later.''))"
    using isArray_truthy [of v "''careers''"]
    by (simp add: recommendations_p0_text [OF assms] p)
next
  assume p: "json_parse_text t = Some w"
  then have "t \<noteq> []" using json_parse_text_empty by auto
  then show "fst (recommendations (stub (Resolved data)) apiKey body) = Responded 200 w"
    by (simp add: recommendations_text [OF assms] p)
qed

theorem reply_shape_checked_witness:
  \<open>key_present (Some ''k'') \<and> trim ''art'' \<noteq> [] \<and>
   first_text (reply_data (Some (JStr ''{"careers": []}''))) = Some (JStr ''{"careers": []}'') \<and>
   json_parse_text (clean ''{"careers": []}'') = Some (JObj [(''careers'', JArr [])]) \<and>
   json_parse_text ''{"careers": []}'' = Some (JObj [(''careers'', JArr [])]) \<and>
   fst (recommendations_p0 (stub (Resolved (reply_data (Some (JStr ''{"careers": []}''))))) (Some ''k'')
          [(''interests'', JStr ''art'')]) =
     Responded 500
       (error_body ''Failed to get recommendations from the AI. Please try again later.'') \<and>
   fst (recommendations (stub (Resolved (reply_data (Some (JStr ''{"careers": []}''))))) (Some ''k'')
          [(''interests'', JStr ''art'')]) =
     Responded 200 (JObj [(''careers'', JArr [])])\<close>
proof -
  have c: \<open>json_parse_text (clean ''{"careers": []}'') = Some (JObj [(''careers'', JArr [])])\<close>
    by code_simp
  have p: \<open>json_parse_text ''{"careers": []}'' = Some (JObj [(''careers'', JArr [])])\<close>
    by code_simp
  show ?thesis
    using key_present_Some trim_art c p
      reply_shape_checked [OF key_present_Some interests_art trim_art first_text_reply,
        of \<open>''{"careers": []}''\<close> "JObj [(''careers'', JArr [])]" "JObj [(''careers'', JArr [])]"]
    by (simp add: first_text_reply)
qed

text \<open>
  C2 as stated fails on \<^verbatim>\<open>src/server.js\<close>: the fenced text is not JSON, the parse
  throws and the answer is 500, while the same text without the fence gives 200.
\<close>

theorem server_js_fenced_reply_fails:
  \<open>fst (recommendations
          (stub (reply_with (Some (JStr (fenced ''{"careers": [], "hobbies": []}'')))))
          (Some ''k'') [(''interests'', JStr ''art'')]) =
     Responded 500
       (error_body ''Failed to get recommendations from the AI. Please try again later.'') \<and>
   fst (recommendations
          (stub (reply_with (Some (JStr ''{"careers": [], "hobbies": []}''))))
          (Some ''k'') [(''interests'', JStr ''art'')]) =
     Responded 200 (JObj [(''careers'', JArr []), (''hobbies'', JArr [])])\<close>
  by code_simp

text \<open>
  C2, as amended. The handler of \<^verbatim>\<open>src/unnamed/part_000\<close> removes the fence before
  parsing: a reply whose text is wrapped in \<^verbatim>\<open>```json\<close> and \<^verbatim>\<open>```\<close> lines gets
  the very response, and the very upstream call, of the reply with the text alone. The
  handler of \<^verbatim>\<open>src/server.js\<close> parses the text as it came and answers a fenced
  reply with 500 and the error body.
\<close>

theorem fenced_reply:
  assumes "key_present apiKey"
    and "map_of body ''interests'' = Some (JStr s)"
    and "trim s \<noteq> []"
  shows "recommendations_p0 (stub (reply_with (Some (JStr (fenced t))))) apiKey body =
           recommendations_p0 (stub (reply_with (Some (JStr t)))) apiKey body \<and>
         fst (recommendations (stub (reply_with (Some (JStr (fenced t))))) apiKey body) =
           Responded 500
             (error_body ''Failed to get recommendations from the AI. Please try again later.'')"
proof
  have "recommendations_try_p0 (reply_with (Some (JStr (fenced t)))) =
          recommendations_try_p0 (reply_with (Some (JStr t)))"
    by (simp add: recommendations_try_p0_def reply_with_def then_do_def clean_fenced
          candidate_text_defined [OF first_text_reply])
  then show "recommendations_p0 (stub (reply_with (Some (JStr (fenced t))))) apiKey body =
           recommendations_p0 (stub (reply_with (Some (JStr t)))) apiKey body"
    unfolding recommendations_p0_def stub_def by (simp only:)
next
  have n: "fenced t \<noteq> []" by (simp add: fenced_def)
  have "recommendations_try (reply_with (Some (JStr (fenced t)))) = Inl SyntaxError"
    using n by (simp add: recommendations_try_def reply_with_def then_do_def JSON_parse_fenced
          raw_text_defined [OF first_text_reply])
  then show "fst (recommendations (stub (reply_with (Some (JStr (fenced t))))) apiKey body) =
           Responded 500
             (error_body ''Failed to get recommendations from the AI. Please try again later.'')"
    using assms(1,2) interests_accepted [OF assms(3)]
    by (simp add: recommendations_def stub_def Let_def)
qed

theorem fenced_reply_witness:
  \<open>key_present (Some ''k'') \<and> trim ''art'' \<noteq> [] \<and>
   fst (recommendations_p0
          (stub (reply_with (Some (JStr (fenced ''{"careers": [], "hobbies": []}'')))))
          (Some ''k'') [(''interests'', JStr ''art'')]) =
     Responded 200 (JObj [(''careers'', JArr []), (''hobbies'', JArr [])])\<close>
proof -
  have u: \<open>fst (recommendations_p0
          (stub (reply_with (Some (JStr ''{"careers": [], "hobbies": []}''))))
          (Some ''k'') [(''interests'', JStr ''art'')]) =
     Responded 200 (JObj [(''careers'', JArr []), (''hobbies'', JArr [])])\<close>
    by code_simp
  show ?thesis
    using key_present_Some trim_art u
      fenced_reply [OF key_present_Some interests_art trim_art, of \<open>''{"careers": [], "hobbies": []}''\<close>]
    by simp
qed

subsection \<open>White space around a JSON text\<close>

lemma js_space_cases:
  assumes "js_space c"
  obtains "c = CHR 0x09" | "c = CHR 0x0A" | "c = CHR 0x0B" | "c = CHR 0x0C" | "c = CHR 0x0D"
    | "c = CHR 0x20" | "c = CHR 0xA0"
  using assms by (auto simp: js_space_def)

lemma start_token_space:
  assumes "js_space c" and "start_token ts c = Some st"
  shows "st = (Idle, ts)"
  using assms(1)
proof (cases rule: js_space_cases)
  case 1 with assms(2) show ?thesis by (simp add: start_token_def json_ws_def)
next
  case 2 with assms(2) show ?thesis by (simp add: start_token_def json_ws_def)
next
  case 3 with assms(2) show ?thesis
    by (simp add: start_token_def json_ws_def is_digit_def is_letter_def)
next
  case 4 with assms(2) show ?thesis
    by (simp add: start_token_def json_ws_def is_digit_def is_letter_def)
next
  case 5 with assms(2) show ?thesis by (simp add: start_token_def json_ws_def)
next
  case 6 with assms(2) show ?thesis by (simp add: start_token_def json_ws_def)
next
  case 7 with assms(2) show ?thesis
    by (simp add: start_token_def json_ws_def is_digit_def is_letter_def)
qed

lemma space_not_in_token:
  assumes "js_space c"
  shows "\<not> is_number_char c" and "\<not> is_letter c" and "hex_value c = None"
    and "unescape c = None" and "c \<noteq> CHR ''u''" and "c \<noteq> CHR 0x22" and "c \<noteq> CHR 0x5C"
  using assms
  by (cases rule: js_space_cases;
      simp add: is_number_char_def is_digit_def is_letter_def hex_value_def unescape_def)+


lemma lex_step_space:
  assumes "js_space c" and "lex_step st c = Some st'" and "lex_finish st' = Some ts"
  shows "lex_finish st = Some ts"
proof (cases st)
  case (Pair m ts0)
  note sp = space_not_in_token [OF assms(1)]
  show ?thesis
  proof (cases m)
    case Idle
    with Pair assms(2) have "start_token ts0 c = Some st'" by simp
    then have "st' = (Idle, ts0)" using assms(1) start_token_space by blast
    with assms(3) Pair Idle show ?thesis by simp
  next
    case (InString acc)
    with Pair assms(2) sp have "st' = (InString (c # acc), ts0)"
      by (simp split: if_splits)
    with assms(3) show ?thesis by simp
  next
    case (InEscape acc)
    with Pair assms(2) sp show ?thesis by simp
  next
    case (InUnicode acc hs)
    with Pair assms(2) sp show ?thesis by simp
  next
    case (InNumber acc)
    with Pair assms(2) sp have v: "valid_number (rev acc)"
      and "start_token (TNumber (rev acc) # ts0) c = Some st'"
      by (simp_all split: if_splits)
    then have "st' = (Idle, TNumber (rev acc) # ts0)" using assms(1) start_token_space by blast
    with assms(3) Pair InNumber v show ?thesis by simp
  next
    case (InWord acc)
    with Pair assms(2) sp have v: "List.member [''true'', ''false'', ''null''] (rev acc)"
      and "start_token (TWord (rev acc) # ts0) c = Some st'"
      by (simp_all split: if_splits)
    then have "st' = (Idle, TWord (rev acc) # ts0)" using assms(1) start_token_space by blast
    with assms(3) Pair InWord v show ?thesis by simp
  qed
qed

lemma lex_from_trailing_space:
  assumes "js_space c"
  shows "lex_from st (s @ [c]) = Some ts \<Longrightarrow> lex_from st s = Some ts"
proof (induction s arbitrary: st)
  case Nil
  then show ?case
    using lex_step_space [OF assms] by (auto split: option.splits)
next
  case (Cons d ds)
  then show ?case by (auto split: option.splits)
qed

lemma lex_from_trim_right:
  "lex_from st u = Some ts \<Longrightarrow> lex_from st (rev (dropWhile js_space (rev u))) = Some ts"
proof (induction u rule: rev_induct)
  case Nil
  then show ?case by simp
next
  case (snoc c u)
  show ?case
  proof (cases "js_space c")
    case True
    then have "lex_from st u = Some ts"
      using snoc.prems lex_from_trailing_space by blast
    then show ?thesis using snoc.IH True by simp
  next
    case False
    then show ?thesis using snoc.prems by simp
  qed
qed

lemma lex_from_trim_left:
  "lex_from (Idle, []) t = Some ts \<Longrightarrow> lex_from (Idle, []) (dropWhile js_space t) = Some ts"
proof (induction t)
  case Nil
  then show ?case by simp
next
  case (Cons c cs)
  show ?case
  proof (cases "js_space c")
    case True
    from Cons.prems obtain st where s: "start_token [] c = Some st" and r: "lex_from st cs = Some ts"
      by (auto split: option.splits)
    from s True have "st = (Idle, [])" using start_token_space by blast
    with r Cons.IH True show ?thesis by simp
  next
    case False
    then show ?thesis using Cons.prems by simp
  qed
qed

lemma lex_trim: "lex t = Some ts \<Longrightarrow> lex (trim t) = Some ts"
  unfolding lex_def trim_def
  by (rule lex_from_trim_right, rule lex_from_trim_left)

lemma json_parse_text_trim:
  assumes "json_parse_text t = Some v"
  shows "json_parse_text (trim t) = Some v"
proof -
  from assms obtain ts where l: "lex t = Some ts" and p: "parse_from (ExpValue, [], None) ts = Some v"
    by (auto simp: json_parse_text_def split: option.splits)
  show ?thesis
    by (simp add: json_parse_text_def lex_trim [OF l] p)
qed

subsection \<open>A text without a fence\<close>

lemma take_prefix:
  assumes "take (length (p @ q)) s = p @ q"
  shows "take (length p) s = p"
proof -
  have "take (length p) s = take (length p) (take (length (p @ q)) s)"
    by (simp add: min_def)
  also have "\<dots> = take (length p) (p @ q)"
    by (simp only: assms)
  also have "\<dots> = p" by simp
  finally show ?thesis .
qed

lemma contains_prefix: "contains (p @ q) s \<Longrightarrow> contains p s"
proof (induction s)
  case Nil
  then show ?case by simp
next
  case (Cons c cs)
  from Cons.prems have "take (length (p @ q)) (c # cs) = p @ q \<or> contains (p @ q) cs"
    by (simp only: contains.simps)
  then show ?case
  proof
    assume "take (length (p @ q)) (c # cs) = p @ q"
    then have "take (length p) (c # cs) = p" by (rule take_prefix)
    then show ?thesis by (simp only: contains.simps simp_thms)
  next
    assume "contains (p @ q) cs"
    then have "contains p cs" by (rule Cons.IH)
    then show ?thesis by (simp only: contains.simps simp_thms)
  qed
qed

lemma recommendation_result_arrays:
  assumes "is_recommendation_result v"
  shows "isArray (get_prop v ''careers'') \<and> isArray (get_prop v ''hobbies'')"
proof -
  have c: "isArray (get_prop v ''careers'')"
    using assms
    by (cases "get_prop v ''careers''" rule: isArray.cases)
       (simp_all add: is_recommendation_result_def)
  have h: "isArray (get_prop v ''hobbies'')"
    using assms c
    by (cases "get_prop v ''careers''" rule: isArray.cases;
        cases "get_prop v ''hobbies''" rule: isArray.cases)
       (simp_all add: is_recommendation_result_def)
  from c h show ?thesis by simp
qed


lemma remove_all_absent: "\<not> contains pat s \<Longrightarrow> remove_all pat s = s"
proof (induction s)
  case Nil
  show ?case by (simp only: remove_all.simps(1))
next
  case (Cons c cs)
  have "\<not> (take (length pat) (c # cs) = pat \<or> contains pat cs)"
    using Cons.prems unfolding contains.simps by blast
  then have n: "\<not> take (length pat) (c # cs) = pat" and a: "\<not> contains pat cs"
    by blast+
  from n have "\<not> (pat \<noteq> [] \<and> take (length pat) (c # cs) = pat)" by blast
  then have "remove_all pat (c # cs) = c # remove_all pat cs" by (rule remove_all_skip)
  also have "remove_all pat cs = cs" using a by (rule Cons.IH)
  finally show ?case .
qed

lemma clean_absent:
  assumes "\<not> contains ''```'' t"
  shows "clean t = trim t"
proof -
  have "\<not> contains (''```'' @ ''json'') t"
    using assms contains_prefix by blast
  then have "\<not> contains ''```json'' t" by simp
  then have j: "remove_all ''```json'' t = t" by (rule remove_all_absent)
  have f: "remove_all ''```'' t = t" using assms by (rule remove_all_absent)
  show ?thesis by (simp only: clean_def j f)
qed

subsection \<open>Passing the result through\<close>

text \<open>
  C7. In \<^verbatim>\<open>src/unnamed/part_000\<close> the cleaning that is meant to take a markdown
  wrapper off the reply removes every run of three backquotes, inside string values too.
  Here the reply is a valid result with two careers and two hobbies, one description
  holding three backquotes: the body of the response is not the object that the
  upstream's text denotes, its description has lost them.
\<close>

theorem part_000_alters_fenced_value:
  \<open>json_parse_text
     ''{"careers":[{"career":"Writer","studies":["a","b","c"],"icon":"fas fa-pen"},{"career":"Coder","studies":["d","e","f"],"icon":"fas fa-code"}],"hobbies":[{"hobby":"Blogging","description":"Use ``` for code","icon":"fas fa-blog"},{"hobby":"Chess","description":"Think","icon":"fas fa-chess"}]}'' =
     Some (JObj
       [(''careers'', JArr
          [JObj [(''career'', JStr ''Writer''), (''studies'', JArr [JStr ''a'', JStr ''b'', JStr ''c'']),
                 (''icon'', JStr ''fas fa-pen'')],
           JObj [(''career'', JStr ''Coder''), (''studies'', JArr [JStr ''d'', JStr ''e'', JStr ''f'']),
                 (''icon'', JStr ''fas fa-code'')]]),
        (''hobbies'', JArr
          [JObj [(''hobby'', JStr ''Blogging''), (''description'', JStr ''Use ``` for code''),
                 (''icon'', JStr ''fas fa-blog'')],
           JObj [(''hobby'', JStr ''Chess''), (''description'', JStr ''Think''),
                 (''icon'', JStr ''fas fa-chess'')]])]) \<and>
   is_recommendation_result (JObj
       [(''careers'', JArr
          [JObj [(''career'', JStr ''Writer''), (''studies'', JArr [JStr ''a'', JStr ''b'', JStr ''c'']),
                 (''icon'', JStr ''fas fa-pen'')],
           JObj [(''career'', JStr ''Coder''), (''studies'', JArr [JStr ''d'', JStr ''e'', JStr ''f'']),
                 (''icon'', JStr ''fas fa-code'')]]),
        (''hobbies'', JArr
          [JObj [(''hobby'', JStr ''Blogging''), (''description'', JStr ''Use ``` for code''),
                 (''icon'', JStr ''fas fa-blog'')],
           JObj [(''hobby'', JStr ''Chess''), (''description'', JStr ''Think''),
                 (''icon'', JStr ''fas fa-chess'')]])]) \<and>
   fst (recommendations_p0
          (stub (reply_with (Some (JStr
     ''{"careers":[{"career":"Writer","studies":["a","b","c"],"icon":"fas fa-pen"},{"career":"Coder","studies":["d","e","f"],"icon":"fas fa-code"}],"hobbies":[{"hobby":"Blogging","description":"Use ``` for code","icon":"fas fa-blog"},{"hobby":"Chess","description":"Think","icon":"fas fa-chess"}]}''))))
          (Some ''k'') [(''interests'', JStr ''writing'')]) =
     Responded 200 (JObj
       [(''careers'', JArr
          [JObj [(''career'', JStr ''Writer''), (''studies'', JArr [JStr ''a'', JStr ''b'', JStr ''c'']),
                 (''icon'', JStr ''fas fa-pen'')],
           JObj [(''career'', JStr ''Coder''), (''studies'', JArr [JStr ''d'', JStr ''e'', JStr ''f'']),
                 (''icon'', JStr ''fas fa-code'')]]),
        (''hobbies'', JArr
          [JObj [(''hobby'', JStr ''Blogging''), (''description'', JStr ''Use  for code''),
                 (''icon'', JStr ''fas fa-blog'')],
           JObj [(''hobby'', JStr ''Chess''), (''description'', JStr ''Think''),
                 (''icon'', JStr ''fas fa-chess'')]])])\<close>
  by code_simp

text \<open>
  Where the cleaning finds nothing to remove, the result is passed through: with the key
  configured and an \<^verbatim>\<open>interests\<close> that is not empty after trimming, when the text of
  the upstream's reply parses to a recommendation result, the handler of
  \<^verbatim>\<open>src/server.js\<close> answers 200 with exactly that value, and so does the handler of
  \<^verbatim>\<open>src/unnamed/part_000\<close> when the text holds no run of three backquotes.
\<close>

lemma valid_result_returned:
  assumes "key_present apiKey"
    and "map_of body ''interests'' = Some (JStr s)"
    and "trim s \<noteq> []"
    and "first_text data = Some (JStr t)"
    and "json_parse_text t = Some v"
    and "is_recommendation_result v"
  shows "fst (recommendations (stub (Resolved data)) apiKey body) = Responded 200 v \<and>
         (\<not> contains ''```'' t \<longrightarrow>
            fst (recommendations_p0 (stub (Resolved data)) apiKey body) = Responded 200 v)"
proof (intro conjI impI)
  have "t \<noteq> []" using assms(5) json_parse_text_empty by auto
  then show "fst (recommendations (stub (Resolved data)) apiKey body) = Responded 200 v"
    by (simp add: recommendations_text [OF assms(1-4)] assms(5))
next
  assume "\<not> contains ''```'' t"
  then have "clean t = trim t" by (rule clean_absent)
  then have p: "json_parse_text (clean t) = Some v"
    using json_parse_text_trim [OF assms(5)] by simp
  have a: "isArray (get_prop v ''careers'') \<and> isArray (get_prop v ''hobbies'')"
    using assms(6) by (rule recommendation_result_arrays)
  then have "truthy (Some v)" using isArray_truthy by blast
  with a show "fst (recommendations_p0 (stub (Resolved data)) apiKey body) = Responded 200 v"
    by (simp add: recommendations_p0_text [OF assms(1-4)] p)
qed

lemma valid_result_returned_example:
  \<open>key_present (Some ''k'') \<and> trim ''art'' \<noteq> [] \<and>
   json_parse_text
     ''{"careers":[{"career":"Painter","studies":["a","b","c"],"icon":"fas fa-brush"},{"career":"Curator","studies":["d","e","f"],"icon":"fas fa-landmark"}],"hobbies":[{"hobby":"Sketching","description":"Draw daily","icon":"fas fa-pencil"},{"hobby":"Pottery","description":"Shape clay","icon":"fas fa-mug-hot"}]}'' =
     Some (JObj
       [(''careers'', JArr
          [JObj [(''career'', JStr ''Painter''), (''studies'', JArr [JStr ''a'', JStr ''b'', JStr ''c'']),
                 (''icon'', JStr ''fas fa-brush'')],
           JObj [(''career'', JStr ''Curator''), (''studies'', JArr [JStr ''d'', JStr ''e'', JStr ''f'']),
                 (''icon'', JStr ''fas fa-landmark'')]]),
        (''hobbies'', JArr
          [JObj [(''hobby'', JStr ''Sketching''), (''description'', JStr ''Draw daily''),
                 (''icon'', JStr ''fas fa-pencil'')],
           JObj [(''hobby'', JStr ''Pottery''), (''description'', JStr ''Shape clay''),
                 (''icon'', JStr ''fas fa-mug-hot'')]])]) \<and>
   fst (recommendations_p0
          (stub (Resolved (reply_data (Some (JStr
     ''{"careers":[{"career":"Painter","studies":["a","b","c"],"icon":"fas fa-brush"},{"career":"Curator","studies":["d","e","f"],"icon":"fas fa-landmark"}],"hobbies":[{"hobby":"Sketching","description":"Draw daily","icon":"fas fa-pencil"},{"hobby":"Pottery","description":"Shape clay","icon":"fas fa-mug-hot"}]}'')))))
          (Some ''k'') [(''interests'', JStr ''art'')]) =
     Responded 200 (JObj
       [(''careers'', JArr
          [JObj [(''career'', JStr ''Painter''), (''studies'', JArr [JStr ''a'', JStr ''b'', JStr ''c'']),
                 (''icon'', JStr ''fas fa-brush'')],
           JObj [(''career'', JStr ''Curator''), (''studies'', JArr [JStr ''d'', JStr ''e'', JStr ''f'']),
                 (''icon'', JStr ''fas fa-landmark'')]]),
        (''hobbies'', JArr
          [JObj [(''hobby'', JStr ''Sketching''), (''description'', JStr ''Draw daily''),
                 (''icon'', JStr ''fas fa-pencil'')],
           JObj [(''hobby'', JStr ''Pottery''), (''description'', JStr ''Shape clay''),
                 (''icon'', JStr ''fas fa-mug-hot'')]])])\<close>
proof -
  let ?t = \<open>''{"careers":[{"career":"Painter","studies":["a","b","c"],"icon":"fas fa-brush"},{"career":"Curator","studies":["d","e","f"],"icon":"fas fa-landmark"}],"hobbies":[{"hobby":"Sketching","description":"Draw daily","icon":"fas fa-pencil"},{"hobby":"Pottery","description":"Shape clay","icon":"fas fa-mug-hot"}]}''\<close>
  let ?v = "JObj
       [(''careers'', JArr
          [JObj [(''career'', JStr ''Painter''), (''studies'', JArr [JStr ''a'', JStr ''b'', JStr ''c'']),
                 (''icon'', JStr ''fas fa-brush'')],
           JObj [(''career'', JStr ''Curator''), (''studies'', JArr [JStr ''d'', JStr ''e'', JStr ''f'']),
                 (''icon'', JStr ''fas fa-landmark'')]]),
        (''hobbies'', JArr
          [JObj [(''hobby'', JStr ''Sketching''), (''description'', JStr ''Draw daily''),
                 (''icon'', JStr ''fas fa-pencil'')],
           JObj [(''hobby'', JStr ''Pottery''), (''description'', JStr ''Shape clay''),
                 (''icon'', JStr ''fas fa-mug-hot'')]])]"
  have p: "json_parse_text ?t = Some ?v" by code_simp
  have r: "is_recommendation_result ?v" by code_simp
  have n: "\<not> contains ''```'' ?t" by code_simp
  from valid_result_returned [OF key_present_Some interests_art trim_art first_text_reply p r]
  have "fst (recommendations_p0 (stub (Resolved (reply_data (Some (JStr ?t))))) (Some ''k'')
          [(''interests'', JStr ''art'')]) = Responded 200 ?v"
    using n by blast
  with p show ?thesis
    using key_present_Some trim_art by blast
qed

end
